theory Spec2Isabelle
  imports Main "HOL-Library.Word" "HOL-Library.AList" "HOL-Library.Finite_Map"
begin

unbundle bit_operations_syntax

section \<open>Go maps\<close>

text \<open>
  The tables of the controller and of the NAT mapper are finite maps (\<open>fmap\<close>): they are
  read and written by key, and where a loop over one of them acts on the world, what it
  does is collected without an order, since Go leaves the order of a \<^verbatim>\<open>range\<close> loop open.

  The maps of the cipher sets are association lists, written with \<open>AList.update\<close> and read
  with \<open>map_of\<close>: there the loops return early or keep a running value, and the order of
  the list stands for the order in which the loop happens to visit the entries. A theorem
  about such a loop is stated for every list, hence for every order.
\<close>

type_synonym ('k, 'v) gomap = "('k \<times> 'v) list"

section \<open>Main controller\<close>

text \<open>
  Several types of the package and their methods are declared outside the sources at hand.
  Each is modelled from the spec, as far as the controller reads or calls it, and says so
  where it is defined.
\<close>

text \<open>
  Modelled from the spec: \<^verbatim>\<open>Hashname\<close> is not declared in the sources at hand; it is the
  identifier of 32 bytes of section 3.
\<close>

type_synonym Hashname = "256 word"

text \<open>
  Modelled from the spec: the flags of \<^verbatim>\<open>main_state\<close> are not declared in the sources at hand.
  The controller is running or terminating (section 4.5).
\<close>

datatype main_flag = main_running | main_terminating

text \<open>
  Modelled from the spec: the flags of \<^verbatim>\<open>line_state\<close> are not declared in the sources at hand.
  \<^verbatim>\<open>peer_down\<close> is the sticky state of section 4.3, the only flag that the controller
  reads; \<open>line_other\<close> stands for the flags of the other states of a line.
\<close>

datatype line_flag = line_peer_down | line_other nat

text \<open>
  Modelled from the spec: the method \<^verbatim>\<open>test\<close> of the two state types is missing. A state is
  the set of the flags that are set, the literal 0 of the source is the empty set, and
  \<^verbatim>\<open>s.test(is, is_not)\<close> holds when the flags \<^verbatim>\<open>is\<close> are set and the flags \<^verbatim>\<open>is_not\<close> are
  not.
\<close>

definition state_test :: "'f set \<Rightarrow> 'f set \<Rightarrow> 'f set \<Rightarrow> bool" where
  "state_test s is_set is_not = (is_set \<subseteq> s \<and> s \<inter> is_not = {})"

text \<open>
  Modelled from the spec: the method \<^verbatim>\<open>mod\<close> of the two state types is missing.
  \<^verbatim>\<open>s.mod(add, remove)\<close> sets the flags \<^verbatim>\<open>add\<close> and clears the flags \<^verbatim>\<open>remove\<close>; the
  source never passes a flag as both.
\<close>

definition state_mod :: "'f set \<Rightarrow> 'f set \<Rightarrow> 'f set \<Rightarrow> 'f set" where
  "state_mod s add remove = (s - remove) \<union> add"

text \<open>
  Modelled from the spec: the struct \<^verbatim>\<open>addr_t\<close> is missing. The controller reads its fields
  \<^verbatim>\<open>hashname\<close>, \<^verbatim>\<open>pubkey\<close> (\<open>None\<close> for \<^verbatim>\<open>nil\<close>), \<^verbatim>\<open>via\<close> (a hashname, zero when there is
  no relay) and \<^verbatim>\<open>addr\<close> (a network address, \<open>None\<close> for \<^verbatim>\<open>nil\<close>). \<open>zero_addr\<close> is the
  value \<^verbatim>\<open>addr_t{}\<close>.
\<close>

record addr_t =
  a_hashname :: Hashname
  a_pubkey :: "string option"
  a_via :: Hashname
  a_addr :: "string option"

definition zero_addr :: addr_t where
  "zero_addr = \<lparr>a_hashname = 0, a_pubkey = None, a_via = 0, a_addr = None\<rparr>"

text \<open>
  Modelled from the spec: the method \<^verbatim>\<open>update\<close> of \<^verbatim>\<open>addr_t\<close> is missing. Merging follows
  section 4.2: a public key is adopted when the record had none, and so is a relay; a
  network address that the new address carries becomes the path.
\<close>

definition addr_update :: "addr_t \<Rightarrow> addr_t \<Rightarrow> addr_t" where
  "addr_update a b =
     a\<lparr>a_pubkey := (if a_pubkey a = None then a_pubkey b else a_pubkey a),
       a_via := (if a_via a = 0 then a_via b else a_via a),
       a_addr := (if a_addr b = None then a_addr a else a_addr b)\<rparr>"

text \<open>
  Modelled from the spec: the struct \<^verbatim>\<open>peer_t\<close> is missing. The controller reads its address
  and reads and writes its flag \<^verbatim>\<open>is_down\<close> (section 3).
\<close>

record peer_t =
  p_addr :: addr_t
  is_down :: bool

text \<open>
  Modelled from the spec: the struct \<^verbatim>\<open>peer_table\<close> is missing. It holds the local hashname
  given to \<^verbatim>\<open>Init\<close>, the records by hashname (section 4.2; the buckets are not modelled,
  no claim depends on the order of the table) and the counter \<^verbatim>\<open>num_peers\<close> that
  \<^verbatim>\<open>PopulateStats\<close> reads.
\<close>

record peer_table =
  pt_local :: Hashname
  pt_peers :: "(Hashname, peer_t) fmap"
  num_peers :: "32 word"

text \<open>
  Modelled from the spec: the method \<^verbatim>\<open>Init\<close> of \<^verbatim>\<open>peer_table\<close> is missing; the table starts
  empty.
\<close>

definition peers_Init :: "Hashname \<Rightarrow> peer_table" where
  "peers_Init h = \<lparr>pt_local = h, pt_peers = fmempty, num_peers = 0\<rparr>"

text \<open>
  Modelled from the spec: the method \<^verbatim>\<open>get_peer\<close> of \<^verbatim>\<open>peer_table\<close> is missing; section 4.2:
  \<^verbatim>\<open>GetPeer(h)\<close> is a lookup.
\<close>

definition peers_get_peer :: "peer_table \<Rightarrow> Hashname \<Rightarrow> peer_t option" where
  "peers_get_peer t h = fmlookup (pt_peers t) h"

text \<open>
  Modelled from the spec: the method \<^verbatim>\<open>add_peer\<close> of \<^verbatim>\<open>peer_table\<close> is missing; section 4.2:
  \<^verbatim>\<open>AddPeer(addr)\<close> inserts a record or merges the address into the existing one, and
  \<^verbatim>\<open>discovered\<close> is true iff the call created the record. The result is the record, the
  flag and the table afterwards.
\<close>

definition peers_add_peer :: "peer_table \<Rightarrow> addr_t \<Rightarrow> peer_t \<times> bool \<times> peer_table" where
  "peers_add_peer t addr =
     (case fmlookup (pt_peers t) (a_hashname addr) of
        None \<Rightarrow>
          let peer = \<lparr>p_addr = addr, is_down = False\<rparr>
          in (peer, True,
              t\<lparr>pt_peers := fmupd (a_hashname addr) peer (pt_peers t), num_peers := num_peers t + 1\<rparr>)
      | Some p \<Rightarrow>
          let peer = p\<lparr>p_addr := addr_update (p_addr p) addr\<rparr>
          in (peer, False, t\<lparr>pt_peers := fmupd (a_hashname addr) peer (pt_peers t)\<rparr>))"

text \<open>
  Modelled from the spec: the method \<^verbatim>\<open>find_closest_peers\<close> of \<^verbatim>\<open>peer_table\<close> is missing;
  section 4.2: \<^verbatim>\<open>ClosestPeers(h, n)\<close> yields up to \<^verbatim>\<open>n\<close> peers, lowest XOR distance to
  \<^verbatim>\<open>h\<close> first.
\<close>

definition peers_find_closest_peers :: "peer_table \<Rightarrow> Hashname \<Rightarrow> int \<Rightarrow> peer_t list" where
  "peers_find_closest_peers t h n =
     take (nat n)
       (List.map_filter (fmlookup (pt_peers t))
          (sort_key (\<lambda>k. k XOR h) (sorted_list_of_fset (fmdom (pt_peers t)))))"

text \<open>
  A \<^verbatim>\<open>*peer_t\<close> is the record that the table holds under the peer's hashname:
  \<open>peer_set_is_down\<close> is the assignment \<^verbatim>\<open>peer.is_down = true\<close> through such a pointer.
\<close>

definition peer_set_is_down :: "Hashname \<Rightarrow> peer_table \<Rightarrow> peer_table" where
  "peer_set_is_down h t =
     (case fmlookup (pt_peers t) h of
        None \<Rightarrow> t
      | Some p \<Rightarrow> t\<lparr>pt_peers := fmupd h (p\<lparr>is_down := True\<rparr>) (pt_peers t)\<rparr>)"

text \<open>
  Modelled from the spec: the struct \<^verbatim>\<open>line_t\<close> is missing. The controller reads three things
  of a line: its peer (the pointer \<^verbatim>\<open>line.peer\<close>, here the hashname
  \<^verbatim>\<open>line.peer.addr.hashname\<close> under which the table holds that peer), the id of its private
  key \<^verbatim>\<open>line.prv_key.id\<close>, which is its local token (section 3), and its state. The
  controller never writes a line: a line in a message or in a table is the line as the
  controller reads it when it handles the message.
\<close>

record line_t =
  l_peer :: Hashname
  prv_key_id :: string
  l_state :: "line_flag set"

text \<open>
  Modelled from the spec: the method \<^verbatim>\<open>Init\<close> of \<^verbatim>\<open>line_t\<close> is missing. It binds the new line
  to its peer; the line has no key yet and is in no state (section 4.3: idle).
\<close>

definition line_Init :: "peer_t \<Rightarrow> line_t" where
  "line_Init peer = \<lparr>l_peer = a_hashname (p_addr peer), prv_key_id = [], l_state = {}\<rparr>"

text \<open>
  Modelled from the spec: the struct \<^verbatim>\<open>public_line_key\<close> is missing; \<^verbatim>\<open>get_line\<close> reads its
  field \<^verbatim>\<open>rsa_pubkey\<close>, a long-term public key (section 3).
\<close>

record public_line_key =
  rsa_pubkey :: "string option"

text \<open>
  \<^verbatim>\<open>
  cmd_line_get struct {
      hashname Hashname
      addr     addr_t
      pub      *public_line_key
      reply    chan *line_t
  }
  \<close>
  \<open>g_reply\<close> says that the reply channel is not \<^verbatim>\<open>nil\<close>.
\<close>

record cmd_line_get =
  g_hashname :: Hashname
  g_addr :: addr_t
  g_pub :: "public_line_key option"
  g_reply :: bool

text \<open>
  What the controller task does to the world around it: the values it sends on reply
  channels (\<open>None\<close> is \<^verbatim>\<open>nil\<close>), its calls of methods of lines and of the seek handler, its
  log lines, and its accesses to the counters that other tasks read. \<open>Lines_Shutdown\<close> is
  the loop \<^verbatim>\<open>for _, l := range c.lines { l.Shutdown() }\<close> over the lines given. \<open>Plain_add\<close>
  is the statement \<^verbatim>\<open>counter += n\<close>, \<open>Atomic_add\<close> and \<open>Atomic_load\<close> are the calls
  \<^verbatim>\<open>atomic.AddInt32\<close> and \<^verbatim>\<open>atomic.LoadInt32\<close> (\<^verbatim>\<open>LoadUint32\<close>) of \<^verbatim>\<open>sync/atomic\<close>.
\<close>

datatype counter = Num_open_lines | Num_running_lines | Num_peers

datatype effect =
    Log string
  | Reply_line "line_t option"
  | Reply_peer "peer_t option"
  | Reply_peers "peer_t list option"
  | Reply_add_peer peer_t bool
  | Line_EnsureRunning line_t
  | Line_Shutdown line_t
  | Lines_Shutdown "line_t fset"
  | Seek Hashname Hashname
  | Plain_add counter "32 word"
  | Atomic_add counter "32 word"
  | Atomic_load counter

text \<open>
  What the two loops select on: the statistics ticker, the \<^verbatim>\<open>shutdown\<close> channel and the nine
  command channels. A command that has a reply channel carries one that is not \<^verbatim>\<open>nil\<close>, as
  the senders of this file make it.
\<close>

datatype msg =
    Stats_tick
  | Shutdown
  | Activate_line line_t
  | Deactivate_line line_t
  | Get_active_line string
  | Register_line line_t
  | Unregister_line line_t
  | Get_line Hashname addr_t "public_line_key option"
  | Get_peer Hashname
  | Add_peer addr_t
  | Get_closest_peers Hashname int

text \<open>
  The fields of \<^verbatim>\<open>main_controller\<close> that the task reads and writes, and of the switch its
  hashname and whether a seek handler is registered. The counters are \<^verbatim>\<open>int32\<close>.
\<close>

record main_controller =
  sw_hashname :: Hashname
  sw_seek_handler :: bool
  state :: "main_flag set"
  lines :: "(Hashname, line_t) fmap"
  active_lines :: "(string, line_t) fmap"
  peers :: peer_table
  num_open_lines :: "32 word"
  num_running_lines :: "32 word"

text \<open>
  \<^verbatim>\<open>
  func (c *main_controller) get_line(cmd cmd_line_get) {
      line := c.lines[cmd.hashname]
      if line == nil {
          addr := addr_t{hashname: cmd.hashname}
          if cmd.pub != nil {
              addr.pubkey = cmd.pub.rsa_pubkey
          }
          addr.update(cmd.addr)
          peer, disc := c.peers.add_peer(addr)
          addr = peer.addr
          if peer.is_down {
              line = nil
              goto EXIT
          }
          if disc {
              c.log.Noticef("discovered: %s (get_line)", peer)
          }
          if (addr.pubkey != nil || !addr.via.IsZero()) && addr.addr != nil {
              line = &line_t{}
              line.Init(c.sw, peer)
              line.EnsureRunning()
              c.lines[cmd.hashname] = line
          }
      }
  EXIT:
      if cmd.reply != nil {
          cmd.reply <- line
      }
  }
  \<close>
  \<open>get_line_addr\<close> is the address handed to \<^verbatim>\<open>add_peer\<close>, \<open>can_open\<close> the test of the last
  \<^verbatim>\<open>if\<close>.
\<close>

definition reply_line :: "cmd_line_get \<Rightarrow> line_t option \<Rightarrow> effect list" where
  "reply_line cmd line = (if g_reply cmd then [Reply_line line] else [])"

definition get_line_addr :: "cmd_line_get \<Rightarrow> addr_t" where
  "get_line_addr cmd =
     (let addr0 = zero_addr\<lparr>a_hashname := g_hashname cmd\<rparr>;
          addr1 = (case g_pub cmd of
                     None \<Rightarrow> addr0
                   | Some pub_key \<Rightarrow> addr0\<lparr>a_pubkey := rsa_pubkey pub_key\<rparr>)
      in addr_update addr1 (g_addr cmd))"

definition can_open :: "addr_t \<Rightarrow> bool" where
  "can_open addr = ((a_pubkey addr \<noteq> None \<or> a_via addr \<noteq> 0) \<and> a_addr addr \<noteq> None)"

definition get_line :: "cmd_line_get \<Rightarrow> main_controller \<Rightarrow> main_controller \<times> effect list" where
  "get_line cmd c =
     (case fmlookup (lines c) (g_hashname cmd) of
        Some line \<Rightarrow> (c, reply_line cmd (Some line))
      | None \<Rightarrow>
          (case peers_add_peer (peers c) (get_line_addr cmd) of (peer, disc, peers') \<Rightarrow>
             let addr = p_addr peer;
                 c1 = c\<lparr>peers := peers'\<rparr>
             in if is_down peer then (c1, reply_line cmd None)
                else
                  let logs = (if disc then [Log ''discovered (get_line)''] else [])
                  in if can_open addr
                     then
                       let line = line_Init peer
                       in (c1\<lparr>lines := fmupd (g_hashname cmd) line (lines c1)\<rparr>,
                           logs @ [Line_EnsureRunning line] @ reply_line cmd (Some line))
                     else (c1, logs @ reply_line cmd None)))"

text \<open>
  \<^verbatim>\<open>
  func (c *main_controller) add_peer(cmd cmd_peer_add) {
      peer, disc := c.peers.add_peer(cmd.addr)
      if disc {
          c.log.Noticef("discovered: %s (add_peer)", peer)
          c.get_line(cmd_line_get{hashname: peer.addr.hashname})
      }
      cmd.reply <- cmd_peer_add_res{peer, disc}
  }

  func (c *main_controller) seek_discovered_peer(peer *peer_t) {
      err := c.sw.seek_handler.Seek(peer.addr.hashname, c.sw.hashname)
      if err != nil {
          c.log.Noticef("failed to seek: %s err=%s", peer.addr.hashname.Short(), err)
      }
  }
  \<close>
  Whether the seek fails is up to the handler: it is the first argument of
  \<open>seek_discovered_peer\<close>.
\<close>

definition add_peer :: "addr_t \<Rightarrow> main_controller \<Rightarrow> main_controller \<times> effect list" where
  "add_peer addr c =
     (case peers_add_peer (peers c) addr of (peer, disc, peers') \<Rightarrow>
        let c1 = c\<lparr>peers := peers'\<rparr> in
        if disc then
          let r = get_line \<lparr>g_hashname = a_hashname (p_addr peer), g_addr = zero_addr,
                           g_pub = None, g_reply = False\<rparr> c1
          in (fst r, Log ''discovered (add_peer)'' # snd r @ [Reply_add_peer peer disc])
        else (c1, [Reply_add_peer peer disc]))"

definition seek_discovered_peer :: "bool \<Rightarrow> peer_t \<Rightarrow> main_controller \<Rightarrow> effect list" where
  "seek_discovered_peer seek_fails peer c =
     Seek (a_hashname (p_addr peer)) (sw_hashname c) #
     (if seek_fails then [Log ''failed to seek''] else [])"

text \<open>
  \<^verbatim>\<open>
  func (c *main_controller) unregister_line(line *line_t) {
      if line.State().test(line_peer_down, 0) {
          line.peer.is_down = true
          c.log.Noticef("failed to open line to %s (removed peer)", line.peer)
      }
      delete(c.lines, line.peer.addr.hashname)
      c.num_running_lines += -1
  }
  \<close>
\<close>

definition unregister_line :: "line_t \<Rightarrow> main_controller \<Rightarrow> main_controller \<times> effect list" where
  "unregister_line line c =
     (let (c1, logs) =
            (if state_test (l_state line) {line_peer_down} {}
             then (c\<lparr>peers := peer_set_is_down (l_peer line) (peers c)\<rparr>,
                   [Log ''failed to open line (removed peer)''])
             else (c, []))
      in (c1\<lparr>lines := fmdrop (l_peer line) (lines c1),
              num_running_lines := num_running_lines c1 + (- 1)\<rparr>,
          logs @ [Plain_add Num_running_lines (- 1)]))"

text \<open>
  The \<^verbatim>\<open>select\<close> of \<^verbatim>\<open>run_active_loop\<close>, case by case:
  \<^verbatim>\<open>
  case <-stats.C:
      c.sw.log.Noticef("stats: %s", c.sw.Stats())
  case <-c.shutdown:
      c.state.mod(main_terminating, main_running)
  case line := <-c.activate_line_chan:
      c.active_lines[line.prv_key.id] = line
      c.num_open_lines += 1
  case line := <-c.deactivate_line_chan:
      delete(c.active_lines, line.prv_key.id)
      c.num_open_lines += -1
  case cmd := <-c.get_active_line_chan:
      cmd.reply <- c.active_lines[cmd.id]
  case line := <-c.register_line_chan:
      c.lines[line.peer.addr.hashname] = line
      c.num_running_lines += 1
  case line := <-c.unregister_line_chan:
      c.unregister_line(line)
  case cmd := <-c.get_line_chan:
      c.get_line(cmd)
  case cmd := <-c.get_peer_chan:
      cmd.reply <- c.peers.get_peer(cmd.hashname)
  case cmd := <-c.add_peer_chan:
      c.add_peer(cmd)
  case cmd := <-c.get_closest_peers_chan:
      cmd.reply <- c.peers.find_closest_peers(cmd.hashname, cmd.n)
  \<close>
\<close>

definition run_active_loop_select :: "msg \<Rightarrow> main_controller \<Rightarrow> main_controller \<times> effect list" where
  "run_active_loop_select m c =
     (case m of
        Stats_tick \<Rightarrow> (c, [Log ''stats''])
      | Shutdown \<Rightarrow> (c\<lparr>state := state_mod (state c) {main_terminating} {main_running}\<rparr>, [])
      | Activate_line line \<Rightarrow>
          (c\<lparr>active_lines := fmupd (prv_key_id line) line (active_lines c),
             num_open_lines := num_open_lines c + 1\<rparr>,
           [Plain_add Num_open_lines 1])
      | Deactivate_line line \<Rightarrow>
          (c\<lparr>active_lines := fmdrop (prv_key_id line) (active_lines c),
             num_open_lines := num_open_lines c + (- 1)\<rparr>,
           [Plain_add Num_open_lines (- 1)])
      | Get_active_line token \<Rightarrow> (c, [Reply_line (fmlookup (active_lines c) token)])
      | Register_line line \<Rightarrow>
          (c\<lparr>lines := fmupd (l_peer line) line (lines c),
             num_running_lines := num_running_lines c + 1\<rparr>,
           [Plain_add Num_running_lines 1])
      | Unregister_line line \<Rightarrow> unregister_line line c
      | Get_line hashname addr pub_key \<Rightarrow>
          get_line \<lparr>g_hashname = hashname, g_addr = addr, g_pub = pub_key, g_reply = True\<rparr> c
      | Get_peer hashname \<Rightarrow> (c, [Reply_peer (peers_get_peer (peers c) hashname)])
      | Add_peer addr \<Rightarrow> add_peer addr c
      | Get_closest_peers hashname n \<Rightarrow>
          (c, [Reply_peers (Some (peers_find_closest_peers (peers c) hashname n))]))"

text \<open>
  The \<^verbatim>\<open>select\<close> of \<^verbatim>\<open>run_terminating_loop\<close>:
  \<^verbatim>\<open>
  case <-stats.C:
      c.sw.log.Noticef("stats: %s", c.sw.Stats())
  case <-c.shutdown:
      // ignore
  case line := <-c.activate_line_chan:
      // ignore
      line.Shutdown()
  case line := <-c.deactivate_line_chan:
      delete(c.active_lines, line.prv_key.id)
      c.num_open_lines += -1
  case cmd := <-c.get_active_line_chan:
      cmd.reply <- nil
  case line := <-c.register_line_chan:
      // ignore
      line.Shutdown()
  case line := <-c.unregister_line_chan:
      c.unregister_line(line)
  case cmd := <-c.get_line_chan:
      cmd.reply <- nil
  case cmd := <-c.get_peer_chan:
      cmd.reply <- nil
  case <-c.add_peer_chan:
      // ignore
  case cmd := <-c.get_closest_peers_chan:
      cmd.reply <- nil
  \<close>
\<close>

definition run_terminating_loop_select :: "msg \<Rightarrow> main_controller \<Rightarrow> main_controller \<times> effect list" where
  "run_terminating_loop_select m c =
     (case m of
        Stats_tick \<Rightarrow> (c, [Log ''stats''])
      | Shutdown \<Rightarrow> (c, [])
      | Activate_line line \<Rightarrow> (c, [Line_Shutdown line])
      | Deactivate_line line \<Rightarrow>
          (c\<lparr>active_lines := fmdrop (prv_key_id line) (active_lines c),
             num_open_lines := num_open_lines c + (- 1)\<rparr>,
           [Plain_add Num_open_lines (- 1)])
      | Get_active_line token \<Rightarrow> (c, [Reply_line None])
      | Register_line line \<Rightarrow> (c, [Line_Shutdown line])
      | Unregister_line line \<Rightarrow> unregister_line line c
      | Get_line hashname addr pub_key \<Rightarrow> (c, [Reply_line None])
      | Get_peer hashname \<Rightarrow> (c, [Reply_peer None])
      | Add_peer addr \<Rightarrow> (c, [])
      | Get_closest_peers hashname n \<Rightarrow> (c, [Reply_peers None]))"

text \<open>
  Where the task waits: in the \<^verbatim>\<open>select\<close> of one of the two loops, or nowhere, once
  \<^verbatim>\<open>run_main_loop\<close> has returned.
\<close>

datatype pc = In_active_loop | In_terminating_loop | Returned

text \<open>
  \<^verbatim>\<open>
  for {
      switch {
      case c.state.test(main_terminating, 0):
          c.run_terminating_loop()
      case c.state.test(main_running, 0):
          c.run_active_loop()
      default:
          return
      }
  }
  \<close>
  \<open>run_main_loop_switch\<close> runs this loop from its head to the next \<^verbatim>\<open>select\<close>, or to the
  \<^verbatim>\<open>return\<close> and through the deferred \<^verbatim>\<open>teardown\<close>. On its way it may enter
  \<^verbatim>\<open>run_terminating_loop\<close>:
  \<^verbatim>\<open>
  defer c.state.mod(0, main_terminating)
  c.log.Noticef("shutdown lines=%d", len(c.lines))
  for _, l := range c.lines {
      l.Shutdown()
  }
  if len(c.lines) == 0 {
      return
  }
  ...
  for len(c.lines) > 0 {
      select { ... }
  }
  \<close>
  and \<^verbatim>\<open>run_active_loop\<close>, whose loop \<^verbatim>\<open>for c.state.test(main_running, 0)\<close> then waits in
  its \<^verbatim>\<open>select\<close>.
\<close>

function run_main_loop_switch :: "main_controller \<Rightarrow> pc \<times> main_controller \<times> effect list" where
  "run_main_loop_switch c =
     (if state_test (state c) {main_terminating} {} then
        (let es = [Log ''shutdown lines'', Lines_Shutdown (fmran (lines c))] in
         if lines c = fmempty then
           (let r = run_main_loop_switch (c\<lparr>state := state_mod (state c) {} {main_terminating}\<rparr>)
            in (fst r, fst (snd r), es @ snd (snd r)))
         else (In_terminating_loop, c, es))
      else if state_test (state c) {main_running} {} then (In_active_loop, c, [])
      else (Returned, c, [Log ''stats'']))"
  by pat_completeness auto

termination
  by (relation "measure (\<lambda>c. if main_terminating \<in> state c then 1 else 0)")
     (auto simp: state_test_def state_mod_def)

declare run_main_loop_switch.simps [simp del]

text \<open>
  \<open>main_step\<close> is what the task does from one \<^verbatim>\<open>select\<close> to the next: the case of the
  message in the loop that waits, the test of that loop, and when the loop is left (the
  terminating one through its deferred \<^verbatim>\<open>c.state.mod(0, main_terminating)\<close>) the head of
  \<^verbatim>\<open>run_main_loop\<close> again.
\<close>

definition main_step :: "msg \<Rightarrow> pc \<times> main_controller \<Rightarrow> (pc \<times> main_controller) \<times> effect list" where
  "main_step m cfg =
     (case fst cfg of
        In_active_loop \<Rightarrow>
          let r = run_active_loop_select m (snd cfg) in
          if state_test (state (fst r)) {main_running} {} then ((In_active_loop, fst r), snd r)
          else
            let sw = run_main_loop_switch (fst r)
            in ((fst sw, fst (snd sw)), snd r @ snd (snd sw))
      | In_terminating_loop \<Rightarrow>
          let r = run_terminating_loop_select m (snd cfg) in
          if lines (fst r) \<noteq> fmempty then ((In_terminating_loop, fst r), snd r)
          else
            let sw = run_main_loop_switch
                       ((fst r)\<lparr>state := state_mod (state (fst r)) {} {main_terminating}\<rparr>)
            in ((fst sw, fst (snd sw)), snd r @ snd (snd sw))
      | Returned \<Rightarrow> (cfg, []))"

definition run_from :: "msg list \<Rightarrow> pc \<times> main_controller \<Rightarrow> pc \<times> main_controller" where
  "run_from ms cfg = fold (\<lambda>m cfg. fst (main_step m cfg)) ms cfg"

text \<open>
  \<^verbatim>\<open>main_controller_open\<close> makes the tables, sets \<^verbatim>\<open>c.state.mod(main_running, 0)\<close> and starts
  \<^verbatim>\<open>run_main_loop\<close>, which begins with \<^verbatim>\<open>setup\<close>, the same \<^verbatim>\<open>mod\<close> again.
  \<open>run_main_loop ms c\<close> is where the task waits, and in which state, once it has handled
  the messages \<open>ms\<close>.
\<close>

definition main_controller_open :: "Hashname \<Rightarrow> bool \<Rightarrow> main_controller" where
  "main_controller_open hashname seek =
     \<lparr>sw_hashname = hashname, sw_seek_handler = seek,
      state = state_mod {} {main_running} {},
      lines = fmempty, active_lines = fmempty, peers = peers_Init hashname,
      num_open_lines = 0, num_running_lines = 0\<rparr>"

definition run_main_loop_start :: "main_controller \<Rightarrow> pc \<times> main_controller" where
  "run_main_loop_start c =
     (let sw = run_main_loop_switch (c\<lparr>state := state_mod (state c) {main_running} {}\<rparr>)
      in (fst sw, fst (snd sw)))"

definition run_main_loop :: "msg list \<Rightarrow> main_controller \<Rightarrow> pc \<times> main_controller" where
  "run_main_loop ms c = fold (\<lambda>m cfg. fst (main_step m cfg)) ms (run_main_loop_start c)"

text \<open>
  \<^verbatim>\<open>
  func (c *main_controller) PopulateStats(s *SwitchStats) {
      s.NumOpenLines += int(atomic.LoadInt32(&c.num_open_lines))
      s.NumRunningLines += int(atomic.LoadInt32(&c.num_running_lines))
      s.KnownPeers = int(atomic.LoadUint32(&c.peers.num_peers))
  }
  \<close>
\<close>

record SwitchStats =
  NumOpenLines :: int
  NumRunningLines :: int
  KnownPeers :: int

definition PopulateStats :: "main_controller \<Rightarrow> SwitchStats \<Rightarrow> SwitchStats \<times> effect list" where
  "PopulateStats c s =
     (s\<lparr>NumOpenLines := NumOpenLines s + sint (num_open_lines c),
        NumRunningLines := NumRunningLines s + sint (num_running_lines c),
        KnownPeers := uint (num_peers (peers c))\<rparr>,
      [Atomic_load Num_open_lines, Atomic_load Num_running_lines, Atomic_load Num_peers])"

text \<open>
  The lines sent on reply channels, in order; the flags of the state at each place where
  the task waits; the key of every active line is its token.
\<close>

definition line_replies :: "effect list \<Rightarrow> line_t option list" where
  "line_replies es = List.map_filter (\<lambda>e. case e of Reply_line x \<Rightarrow> Some x | _ \<Rightarrow> None) es"

definition config_ok :: "pc \<times> main_controller \<Rightarrow> bool" where
  "config_ok cfg =
     (case fst cfg of
        In_active_loop \<Rightarrow> state (snd cfg) = {main_running}
      | In_terminating_loop \<Rightarrow> state (snd cfg) = {main_terminating} \<and> lines (snd cfg) \<noteq> fmempty
      | Returned \<Rightarrow> state (snd cfg) = {})"


text \<open>
  A switch with the hashname 7 and a seek handler; a peer with the hashname 5, its address
  and its line.
\<close>

definition addr5 :: addr_t where
  "addr5 = \<lparr>a_hashname = 5, a_pubkey = Some ''rsa-key-5'', a_via = 0, a_addr = Some ''10.0.0.5:42424''\<rparr>"

definition line1 :: line_t where
  "line1 = \<lparr>l_peer = 5, prv_key_id = ''token-1'', l_state = {}\<rparr>"




definition busy_controller :: main_controller where
  "busy_controller = snd (run_main_loop [Add_peer addr5] (main_controller_open 7 True))"

section \<open>Main controller: proofs\<close>

lemma switch_running:
  "state c = {main_running} \<Longrightarrow> run_main_loop_switch c = (In_active_loop, c, [])"
  by (simp add: run_main_loop_switch.simps state_test_def)

lemma switch_stopped:
  "state c = {} \<Longrightarrow> run_main_loop_switch c = (Returned, c, [Log ''stats''])"
  by (simp add: run_main_loop_switch.simps state_test_def)

lemma switch_terminating:
  "state c = {main_terminating} \<Longrightarrow> lines c \<noteq> fmempty \<Longrightarrow>
   run_main_loop_switch c =
     (In_terminating_loop, c, [Log ''shutdown lines'', Lines_Shutdown (fmran (lines c))])"
  by (simp add: run_main_loop_switch.simps state_test_def)

lemma switch_terminating_empty:
  "state c = {main_terminating} \<Longrightarrow> lines c = fmempty \<Longrightarrow>
   run_main_loop_switch c =
     (Returned, c\<lparr>state := {}\<rparr>,
      [Log ''shutdown lines'', Lines_Shutdown (fmran (lines c)), Log ''stats''])"
  by (subst run_main_loop_switch.simps)
     (simp add: state_test_def state_mod_def switch_stopped Let_def)

lemma get_line_state: "state (fst (get_line cmd c)) = state c"
  by (simp add: get_line_def Let_def split: option.splits prod.splits)


lemma add_peer_state: "state (fst (add_peer addr c)) = state c"
  by (simp add: add_peer_def Let_def get_line_state split: prod.splits)


lemma unregister_line_state: "state (fst (unregister_line line c)) = state c"
  by (simp add: unregister_line_def Let_def)

lemma unregister_line_tables:
  "lines (fst (unregister_line line c)) = fmdrop (l_peer line) (lines c)"
  "active_lines (fst (unregister_line line c)) = active_lines c"
  by (simp_all add: unregister_line_def Let_def)

lemma active_select_state:
  "state (fst (run_active_loop_select m c)) =
     (if m = Shutdown then state_mod (state c) {main_terminating} {main_running} else state c)"
  by (cases m)
     (simp_all add: run_active_loop_select_def get_line_state add_peer_state unregister_line_state)

lemma terminating_select_state: "state (fst (run_terminating_loop_select m c)) = state c"
  by (cases m) (simp_all add: run_terminating_loop_select_def unregister_line_state)

lemma main_step_active:
  assumes "state c = {main_running}" and "m \<noteq> Shutdown"
  shows "main_step m (In_active_loop, c) =
           ((In_active_loop, fst (run_active_loop_select m c)), snd (run_active_loop_select m c))"
  using assms active_select_state [of m c]
  by (simp add: main_step_def state_test_def Let_def)

lemma main_step_Shutdown:
  assumes "state c = {main_running}"
  shows "main_step Shutdown (In_active_loop, c) =
           (if lines c = fmempty
            then ((Returned, c\<lparr>state := {}\<rparr>),
                  [Log ''shutdown lines'', Lines_Shutdown (fmran (lines c)), Log ''stats''])
            else ((In_terminating_loop, c\<lparr>state := {main_terminating}\<rparr>),
                  [Log ''shutdown lines'', Lines_Shutdown (fmran (lines c))]))"
proof -
  let ?c = "c\<lparr>state := {main_terminating}\<rparr>"
  have sel: "run_active_loop_select Shutdown c = (?c, [])"
    using assms by (simp add: run_active_loop_select_def state_mod_def)
  have nt: "\<not> state_test (state ?c) {main_running} {}"
    by (simp add: state_test_def)
  show ?thesis
  proof (cases "lines c = fmempty")
    case True
    then have "run_main_loop_switch ?c =
        (Returned, ?c\<lparr>state := {}\<rparr>,
         [Log ''shutdown lines'', Lines_Shutdown (fmran (lines ?c)), Log ''stats''])"
      by (intro switch_terminating_empty) simp_all
    then show ?thesis using True sel nt by (simp add: main_step_def Let_def)
  next
    case False
    then have "run_main_loop_switch ?c =
        (In_terminating_loop, ?c, [Log ''shutdown lines'', Lines_Shutdown (fmran (lines ?c))])"
      by (intro switch_terminating) simp_all
    then show ?thesis using False sel nt by (simp add: main_step_def Let_def)
  qed
qed

lemma main_step_terminating:
  assumes "state c = {main_terminating}"
  shows "main_step m (In_terminating_loop, c) =
           (if lines (fst (run_terminating_loop_select m c)) \<noteq> fmempty
            then ((In_terminating_loop, fst (run_terminating_loop_select m c)),
                  snd (run_terminating_loop_select m c))
            else ((Returned, (fst (run_terminating_loop_select m c))\<lparr>state := {}\<rparr>),
                  snd (run_terminating_loop_select m c) @ [Log ''stats'']))"
proof -
  let ?c = "fst (run_terminating_loop_select m c)"
  have st: "state ?c = {main_terminating}"
    using assms by (simp add: terminating_select_state)
  have "run_main_loop_switch (?c\<lparr>state := state_mod (state ?c) {} {main_terminating}\<rparr>) =
      (Returned, ?c\<lparr>state := {}\<rparr>, [Log ''stats''])"
    using switch_stopped [of "?c\<lparr>state := {}\<rparr>"] by (simp add: st state_mod_def)
  then show ?thesis
    by (simp add: main_step_def Let_def)
qed

lemma main_step_config_ok:
  assumes "config_ok cfg"
  shows "config_ok (fst (main_step m cfg))"
proof -
  obtain p c where cfg: "cfg = (p, c)" by (cases cfg)
  show ?thesis
  proof (cases p)
    case In_active_loop
    with assms cfg have st: "state c = {main_running}" by (simp add: config_ok_def)
    show ?thesis
    proof (cases "m = Shutdown")
      case True
      then show ?thesis using main_step_Shutdown [OF st] cfg In_active_loop
        by (simp add: config_ok_def)
    next
      case False
      then show ?thesis using main_step_active [OF st False] cfg In_active_loop st
        by (simp add: config_ok_def active_select_state)
    qed
  next
    case In_terminating_loop
    with assms cfg have st: "state c = {main_terminating}" by (simp add: config_ok_def)
    show ?thesis using main_step_terminating [OF st, of m] cfg In_terminating_loop st
      by (simp add: config_ok_def terminating_select_state)
  next
    case Returned
    then show ?thesis using assms cfg by (simp add: main_step_def)
  qed
qed

lemma run_from_config_ok: "config_ok cfg \<Longrightarrow> config_ok (run_from ms cfg)"
  by (induction ms arbitrary: cfg) (simp_all add: run_from_def main_step_config_ok)

lemma start_config:
  "run_main_loop_start (main_controller_open h seek) = (In_active_loop, main_controller_open h seek)"
  by (simp add: run_main_loop_start_def main_controller_open_def state_mod_def switch_running Let_def)

lemma run_main_loop_run_from:
  "run_main_loop ms (main_controller_open h seek) =
     run_from ms (In_active_loop, main_controller_open h seek)"
  by (simp add: run_main_loop_def run_from_def start_config)

lemma run_main_loop_config_ok: "config_ok (run_main_loop ms (main_controller_open h seek))"
  unfolding run_main_loop_run_from
  by (rule run_from_config_ok) (simp add: config_ok_def main_controller_open_def state_mod_def)






lemmas controller_eval =
  run_from_def main_step_def Let_def run_active_loop_select_def
  run_terminating_loop_select_def unregister_line_def get_line_def add_peer_def
  main_controller_open_def state_test_def state_mod_def peers_Init_def peers_add_peer_def
  peer_set_is_down_def get_line_addr_def can_open_def addr_update_def zero_addr_def
  reply_line_def line_Init_def line_replies_def List.map_filter_def fmdrop_fmupd

lemma busy_controller_value:
  "run_main_loop [Add_peer addr5] (main_controller_open 7 True) =
     (In_active_loop,
      \<lparr>sw_hashname = 7, sw_seek_handler = True, state = {main_running},
       lines = fmupd 5 \<lparr>l_peer = 5, prv_key_id = [], l_state = {}\<rparr> fmempty,
       active_lines = fmempty,
       peers = \<lparr>pt_local = 7,
                pt_peers = fmupd 5 \<lparr>p_addr = addr5, is_down = False\<rparr> fmempty,
                num_peers = 1\<rparr>,
       num_open_lines = 0, num_running_lines = 0\<rparr>)"
  unfolding run_main_loop_run_from
  by (simp add: controller_eval addr5_def)






text \<open>
  Claim C3. When the active loop receives \<^verbatim>\<open>Shutdown\<close>, the controller calls \<^verbatim>\<open>Shutdown\<close> on
  every line of \<^verbatim>\<open>lines\<close> and leaves both tables as they are. From then on, wherever it
  waits in the terminating loop, \<^verbatim>\<open>lines\<close> is not empty, and it stays in that loop exactly
  as long as \<^verbatim>\<open>lines\<close> is not empty; there \<^verbatim>\<open>GetPeer\<close>, \<^verbatim>\<open>GetClosestPeers\<close>, \<^verbatim>\<open>GetLine\<close> and
  \<^verbatim>\<open>GetActiveLine\<close> are answered \<^verbatim>\<open>nil\<close> and change nothing, a line that arrives on the
  activate or the register channel is shut down and enters neither table, a deactivation
  deletes the line's token from \<^verbatim>\<open>active_lines\<close> and an unregistration deletes the line's
  hashname from \<^verbatim>\<open>lines\<close>.
\<close>

theorem C3_terminating_loop:
  assumes reach: "run_main_loop ms0 (main_controller_open h seek) = (In_active_loop, c)"
  shows "Lines_Shutdown (fmran (lines c)) \<in> set (snd (main_step Shutdown (In_active_loop, c))) \<and>
         lines (snd (fst (main_step Shutdown (In_active_loop, c)))) = lines c \<and>
         active_lines (snd (fst (main_step Shutdown (In_active_loop, c)))) = active_lines c \<and>
         (\<forall>ms c2 m.
            run_from ms (fst (main_step Shutdown (In_active_loop, c))) = (In_terminating_loop, c2) \<longrightarrow>
            lines c2 \<noteq> fmempty \<and>
            (fst (fst (main_step m (In_terminating_loop, c2))) = In_terminating_loop \<longleftrightarrow>
               lines (snd (fst (main_step m (In_terminating_loop, c2)))) \<noteq> fmempty) \<and>
            (case m of
               Get_peer hashname \<Rightarrow>
                 main_step m (In_terminating_loop, c2) = ((In_terminating_loop, c2), [Reply_peer None])
             | Get_closest_peers hashname n \<Rightarrow>
                 main_step m (In_terminating_loop, c2) = ((In_terminating_loop, c2), [Reply_peers None])
             | Get_line hashname addr pub_key \<Rightarrow>
                 main_step m (In_terminating_loop, c2) = ((In_terminating_loop, c2), [Reply_line None])
             | Get_active_line token \<Rightarrow>
                 main_step m (In_terminating_loop, c2) = ((In_terminating_loop, c2), [Reply_line None])
             | Activate_line line \<Rightarrow>
                 main_step m (In_terminating_loop, c2) = ((In_terminating_loop, c2), [Line_Shutdown line])
             | Register_line line \<Rightarrow>
                 main_step m (In_terminating_loop, c2) = ((In_terminating_loop, c2), [Line_Shutdown line])
             | Deactivate_line line \<Rightarrow>
                 active_lines (snd (fst (main_step m (In_terminating_loop, c2)))) =
                   fmdrop (prv_key_id line) (active_lines c2) \<and>
                 lines (snd (fst (main_step m (In_terminating_loop, c2)))) = lines c2
             | Unregister_line line \<Rightarrow>
                 lines (snd (fst (main_step m (In_terminating_loop, c2)))) =
                   fmdrop (l_peer line) (lines c2) \<and>
                 active_lines (snd (fst (main_step m (In_terminating_loop, c2)))) = active_lines c2
             | _ \<Rightarrow>
                 lines (snd (fst (main_step m (In_terminating_loop, c2)))) = lines c2 \<and>
                 active_lines (snd (fst (main_step m (In_terminating_loop, c2)))) = active_lines c2))"
proof -
  from run_main_loop_config_ok [of ms0 h seek] reach
  have st: "state c = {main_running}" by (simp add: config_ok_def)
  note sd = main_step_Shutdown [OF st]
  have ok1: "config_ok (fst (main_step Shutdown (In_active_loop, c)))"
    by (rule main_step_config_ok) (simp add: config_ok_def st)
  have first: "Lines_Shutdown (fmran (lines c)) \<in> set (snd (main_step Shutdown (In_active_loop, c))) \<and>
         lines (snd (fst (main_step Shutdown (In_active_loop, c)))) = lines c \<and>
         active_lines (snd (fst (main_step Shutdown (In_active_loop, c)))) = active_lines c"
    by (simp add: sd)
  have later: "lines c2 \<noteq> fmempty \<and>
            (fst (fst (main_step m (In_terminating_loop, c2))) = In_terminating_loop \<longleftrightarrow>
               lines (snd (fst (main_step m (In_terminating_loop, c2)))) \<noteq> fmempty) \<and>
            (case m of
               Get_peer hashname \<Rightarrow>
                 main_step m (In_terminating_loop, c2) = ((In_terminating_loop, c2), [Reply_peer None])
             | Get_closest_peers hashname n \<Rightarrow>
                 main_step m (In_terminating_loop, c2) = ((In_terminating_loop, c2), [Reply_peers None])
             | Get_line hashname addr pub_key \<Rightarrow>
                 main_step m (In_terminating_loop, c2) = ((In_terminating_loop, c2), [Reply_line None])
             | Get_active_line token \<Rightarrow>
                 main_step m (In_terminating_loop, c2) = ((In_terminating_loop, c2), [Reply_line None])
             | Activate_line line \<Rightarrow>
                 main_step m (In_terminating_loop, c2) = ((In_terminating_loop, c2), [Line_Shutdown line])
             | Register_line line \<Rightarrow>
                 main_step m (In_terminating_loop, c2) = ((In_terminating_loop, c2), [Line_Shutdown line])
             | Deactivate_line line \<Rightarrow>
                 active_lines (snd (fst (main_step m (In_terminating_loop, c2)))) =
                   fmdrop (prv_key_id line) (active_lines c2) \<and>
                 lines (snd (fst (main_step m (In_terminating_loop, c2)))) = lines c2
             | Unregister_line line \<Rightarrow>
                 lines (snd (fst (main_step m (In_terminating_loop, c2)))) =
                   fmdrop (l_peer line) (lines c2) \<and>
                 active_lines (snd (fst (main_step m (In_terminating_loop, c2)))) = active_lines c2
             | _ \<Rightarrow>
                 lines (snd (fst (main_step m (In_terminating_loop, c2)))) = lines c2 \<and>
                 active_lines (snd (fst (main_step m (In_terminating_loop, c2)))) = active_lines c2)"
    if run: "run_from ms (fst (main_step Shutdown (In_active_loop, c))) = (In_terminating_loop, c2)"
    for ms c2 m
  proof -
    from run_from_config_ok [OF ok1, of ms] run
    have st2: "state c2 = {main_terminating}" and ne: "lines c2 \<noteq> fmempty"
      by (simp_all add: config_ok_def)
    note step = main_step_terminating [OF st2, of m]
    show ?thesis
      using ne step
      by (cases m)
         (simp_all add: run_terminating_loop_select_def unregister_line_tables)
  qed
  from first later show ?thesis by blast
qed

theorem C3_terminating_loop_witness:
  "run_main_loop [Add_peer addr5] (main_controller_open 7 True) = (In_active_loop, busy_controller) \<and>
   Lines_Shutdown (fmran (lines busy_controller)) \<in>
     set (snd (main_step Shutdown (In_active_loop, busy_controller))) \<and>
   run_from [Activate_line line1] (fst (main_step Shutdown (In_active_loop, busy_controller))) =
     (In_terminating_loop, busy_controller\<lparr>state := {main_terminating}\<rparr>) \<and>
   lines (busy_controller\<lparr>state := {main_terminating}\<rparr>) \<noteq> fmempty \<and>
   main_step (Get_line 5 zero_addr None) (In_terminating_loop, busy_controller\<lparr>state := {main_terminating}\<rparr>) =
     ((In_terminating_loop, busy_controller\<lparr>state := {main_terminating}\<rparr>), [Reply_line None])"
proof -
  have h: "run_main_loop [Add_peer addr5] (main_controller_open 7 True) =
      (In_active_loop, busy_controller)"
    by (simp add: busy_controller_def busy_controller_value)
  have st: "state busy_controller = {main_running}"
    by (simp add: busy_controller_def busy_controller_value)
  have ne: "lines busy_controller \<noteq> fmempty"
  proof
    assume "lines busy_controller = fmempty"
    then have "fmlookup (lines busy_controller) 5 = None" by simp
    then show False by (simp add: busy_controller_def busy_controller_value)
  qed
  have r: "run_from [Activate_line line1] (fst (main_step Shutdown (In_active_loop, busy_controller))) =
      (In_terminating_loop, busy_controller\<lparr>state := {main_terminating}\<rparr>)"
    using ne
    by (simp add: run_from_def main_step_Shutdown [OF st] main_step_terminating
        run_terminating_loop_select_def)
  note t = C3_terminating_loop [OF h]
  note q = t [THEN conjunct2, THEN conjunct2, THEN conjunct2, rule_format, OF r, of "Get_line 5 zero_addr None"]
  from t have a: "Lines_Shutdown (fmran (lines busy_controller)) \<in>
      set (snd (main_step Shutdown (In_active_loop, busy_controller)))"
    by blast
  from q have b: "lines (busy_controller\<lparr>state := {main_terminating}\<rparr>) \<noteq> fmempty" by blast
  from q have c: "main_step (Get_line 5 zero_addr None)
        (In_terminating_loop, busy_controller\<lparr>state := {main_terminating}\<rparr>) =
      ((In_terminating_loop, busy_controller\<lparr>state := {main_terminating}\<rparr>), [Reply_line None])"
    by simp
  from h a r b c show ?thesis by blast
qed

text \<open>
  Claim C4 says that a discovered peer makes the controller attempt a line and, when a seek
  handler is registered, seek the peer's hashname. With a seek handler registered,
  \<^verbatim>\<open>add_peer\<close> for an address not seen before logs the discovery, starts a line
  through \<^verbatim>\<open>get_line\<close> and replies; it makes no call of the seek handler, and for no
  address and no state does it make one: \<^verbatim>\<open>seek_discovered_peer\<close> has no caller.
\<close>

theorem C4_add_peer_does_not_seek:
  "sw_seek_handler (main_controller_open 7 True) \<and>
   fst (snd (peers_add_peer (peers (main_controller_open 7 True)) addr5)) \<and>
   snd (add_peer addr5 (main_controller_open 7 True)) =
     [Log ''discovered (add_peer)'',
      Line_EnsureRunning \<lparr>l_peer = 5, prv_key_id = [], l_state = {}\<rparr>,
      Reply_add_peer \<lparr>p_addr = addr5, is_down = False\<rparr> True] \<and>
   list_all (\<lambda>e. case e of Seek _ _ \<Rightarrow> False | _ \<Rightarrow> True) (snd (add_peer addr c))"
proof -
  have "list_all (\<lambda>e. case e of Seek _ _ \<Rightarrow> False | _ \<Rightarrow> True) (snd (add_peer addr c))"
    by (simp add: add_peer_def get_line_def reply_line_def Let_def split: prod.splits option.splits)
  then show ?thesis
    by (simp add: controller_eval addr5_def)
qed

text \<open>
  Claim C5 says that every mutation of the counters is an atomic operation. The counters
  \<^verbatim>\<open>num_open_lines\<close> and \<^verbatim>\<open>num_running_lines\<close> are written with the plain statements
  \<^verbatim>\<open>+= 1\<close> and \<^verbatim>\<open>+= -1\<close> in every place of the two loops and of \<^verbatim>\<open>unregister_line\<close>,
  while \<^verbatim>\<open>PopulateStats\<close> reads them with atomic loads.
\<close>

theorem C5_counters_plain_writes:
  "snd (run_active_loop_select (Activate_line line) c) = [Plain_add Num_open_lines 1] \<and>
   snd (run_active_loop_select (Deactivate_line line) c) = [Plain_add Num_open_lines (- 1)] \<and>
   snd (run_terminating_loop_select (Deactivate_line line) c) = [Plain_add Num_open_lines (- 1)] \<and>
   snd (run_active_loop_select (Register_line line) c) = [Plain_add Num_running_lines 1] \<and>
   last (snd (unregister_line line c)) = Plain_add Num_running_lines (- 1) \<and>
   snd (PopulateStats c s) =
     [Atomic_load Num_open_lines, Atomic_load Num_running_lines, Atomic_load Num_peers]"
  by (simp add: run_active_loop_select_def run_terminating_loop_select_def unregister_line_def
      PopulateStats_def Let_def)

section \<open>Cipher sets: CSID negotiation\<close>

text \<open>\<^verbatim>\<open>type opaqueKey struct{ pub, prv []byte }\<close>; \<^verbatim>\<open>type Keys map[uint8]Key\<close>.\<close>

record opaqueKey =
  pub :: "8 word list"
  prv :: "8 word list"

type_synonym Keys = "(8 word, opaqueKey) gomap"

text \<open>
  \<^verbatim>\<open>
  func SelectCSID(a, b Keys) uint8 {
      var max uint8
      for csid := range a {
          if _, f := b[csid]; f && csid > max {
              max = csid
          }
      }
      return max
  }
  \<close>
  The comparison is the unsigned one of \<^verbatim>\<open>uint8\<close>, which is the order of \<open>8 word\<close>.
\<close>

definition SelectCSID_body :: "Keys \<Rightarrow> 8 word \<times> opaqueKey \<Rightarrow> 8 word \<Rightarrow> 8 word" where
  "SelectCSID_body b entry mx =
     (let csid = fst entry in
      if map_of b csid \<noteq> None \<and> csid > mx then csid else mx)"

definition SelectCSID :: "Keys \<Rightarrow> Keys \<Rightarrow> 8 word" where
  "SelectCSID a b = fold (SelectCSID_body b) a 0"

text \<open>The CSIDs present in both key sets.\<close>

definition shared_csids :: "Keys \<Rightarrow> Keys \<Rightarrow> 8 word set" where
  "shared_csids a b = fst ` set a \<inter> fst ` set b"

text \<open>The key sets of the negotiation scenario; the key material plays no part.\<close>

definition some_key :: opaqueKey where
  "some_key = \<lparr>pub = [1, 2, 3], prv = []\<rparr>"

definition keys_1a_2a_3a :: Keys where
  "keys_1a_2a_3a = [(0x1a, some_key), (0x2a, some_key), (0x3a, some_key)]"

definition keys_2a_3a :: Keys where
  "keys_2a_3a = [(0x2a, some_key), (0x3a, some_key)]"

definition keys_1a :: Keys where
  "keys_1a = [(0x1a, some_key)]"

definition keys_2a :: Keys where
  "keys_2a = [(0x2a, some_key)]"

section \<open>Cipher sets: parts and their JSON form\<close>







text \<open>
  \<^verbatim>\<open>type Parts map[uint8]string\<close>. A Go string is a sequence of bytes and \<^verbatim>\<open>len\<close> counts
  bytes, as \<open>length\<close> does on \<open>string\<close>.

  Go's \<^verbatim>\<open>encoding/json\<close> is not part of the repository: \<^verbatim>\<open>json.Marshal\<close> and
  \<^verbatim>\<open>json.Unmarshal\<close> at the type \<^verbatim>\<open>map[string]string\<close> are taken as a parameter
  \<open>js\<close> of the two methods.
  \<^verbatim>\<open>
  func (p Parts) MarshalJSON() ([]byte, error) {
      m := make(map[string]string, len(p))
      for k, v := range p {
          m[hex.EncodeToString([]byte{k})] = v
      }
      return json.Marshal(m)
  }
  \<close>
  \<open>Parts_UnmarshalJSON_range\<close> is the loop of \<^verbatim>\<open>UnmarshalJSON\<close> over the decoded map
  \<^verbatim>\<open>x\<close>; the method assigns the new map \<^verbatim>\<open>y\<close> to \<^verbatim>\<open>*p\<close> before the loop, so the result
  is the map as far as it was filled together with the error returned (\<open>None\<close> for
  \<^verbatim>\<open>nil\<close>). \<^verbatim>\<open>csid[0]\<close> panics on an empty slice.
\<close>

datatype cipherset_error = ErrInvalidKeys | ErrInvalidParts | JSONError | IndexOutOfRange


















section \<open>Cipher sets: proofs\<close>

lemma map_of_present: "(\<exists>y. map_of b k = Some y) \<longleftrightarrow> k \<in> fst ` set b"
  using map_of_eq_None_iff [of b k] by auto

lemma SelectCSID_fold:
  "fold (SelectCSID_body b) a mx = Max (insert mx (fst ` set a \<inter> fst ` set b))"
proof (induction a arbitrary: mx)
  case Nil
  show ?case by simp
next
  case (Cons e a)
  let ?S = "fst ` set a \<inter> fst ` set b"
  have fin: "finite ?S" by simp
  show ?case
  proof (cases "fst e \<in> fst ` set b")
    case False
    then have "fst ` set (e # a) \<inter> fst ` set b = ?S" by auto
    moreover have "SelectCSID_body b e mx = mx"
      using False by (simp add: SelectCSID_body_def map_of_present Let_def)
    ultimately show ?thesis using Cons.IH [of mx] by simp
  next
    case True
    then have eq: "fst ` set (e # a) \<inter> fst ` set b = insert (fst e) ?S" by auto
    have body: "SelectCSID_body b e mx = max (fst e) mx"
      using True by (auto simp: SelectCSID_body_def map_of_present Let_def max_def)
    have "Max (insert (max (fst e) mx) ?S) = Max (insert mx (insert (fst e) ?S))"
    proof (cases "?S = {}")
      case True
      then show ?thesis by (simp add: max.commute)
    next
      case False
      then show ?thesis using fin by (simp add: max.assoc max.commute max.left_commute)
    qed
    then show ?thesis using Cons.IH [of "max (fst e) mx"] body eq by simp
  qed
qed

lemma SelectCSID_scenario: "SelectCSID keys_1a_2a_3a keys_2a_3a = 0x3a"
  by (simp add: SelectCSID_def SelectCSID_body_def keys_1a_2a_3a_def keys_2a_3a_def)

text \<open>
  Claim C6. For every two key sets that share at least one CSID, \<open>SelectCSID\<close> returns
  the greatest CSID present in both, whatever the order in which the loop visits the first
  set; the sets {0x1a, 0x2a, 0x3a} and {0x2a, 0x3a} select 0x3a.
\<close>

theorem C6_SelectCSID_selects_max:
  "(shared_csids a b \<noteq> {} \<longrightarrow> SelectCSID a b = Max (shared_csids a b)) \<and>
   SelectCSID keys_1a_2a_3a keys_2a_3a = 0x3a"
proof (intro conjI impI)
  assume shared: "shared_csids a b \<noteq> {}"
  have fin: "finite (shared_csids a b)" by (simp add: shared_csids_def)
  have "SelectCSID a b = Max (insert 0 (shared_csids a b))"
    by (simp add: SelectCSID_def SelectCSID_fold shared_csids_def)
  also have "\<dots> = max 0 (Max (shared_csids a b))"
    using fin shared by simp
  also have "\<dots> = Max (shared_csids a b)"
    by (simp add: max_def)
  finally show "SelectCSID a b = Max (shared_csids a b)" .
next
  show "SelectCSID keys_1a_2a_3a keys_2a_3a = 0x3a"
    by (rule SelectCSID_scenario)
qed

theorem C6_SelectCSID_selects_max_witness:
  "shared_csids (rev keys_1a_2a_3a) keys_2a_3a \<noteq> {} \<and>
   SelectCSID (rev keys_1a_2a_3a) keys_2a_3a = Max (shared_csids (rev keys_1a_2a_3a) keys_2a_3a)"
proof -
  have h: "shared_csids (rev keys_1a_2a_3a) keys_2a_3a \<noteq> {}"
    by (simp add: shared_csids_def keys_1a_2a_3a_def keys_2a_3a_def)
  show ?thesis
    using h C6_SelectCSID_selects_max [of "rev keys_1a_2a_3a" keys_2a_3a] by blast
qed

text \<open>
  Claim C7, as stated: key sets that share no CSID make the negotiation fail with
  \<open>InvalidKeys\<close>. \<open>SelectCSID\<close> has the single result type \<^verbatim>\<open>uint8\<close> and no error
  result: on {0x1a} against {0x2a} it returns the byte 0, the initial value of its
  variable \<^verbatim>\<open>max\<close>.
\<close>

theorem C7_SelectCSID_disjoint_counterexample:
  "SelectCSID keys_1a keys_2a = 0"
  by (simp add: SelectCSID_def SelectCSID_body_def keys_1a_def keys_2a_def)

text \<open>
  Claim C7, amended. For every two key sets that share no CSID, \<open>SelectCSID\<close> returns 0;
  it signals no failure itself.
\<close>

theorem C7_SelectCSID_disjoint_zero:
  assumes "shared_csids a b = {}"
  shows "SelectCSID a b = 0"
proof -
  have "SelectCSID a b = Max (insert 0 (fst ` set a \<inter> fst ` set b))"
    by (simp add: SelectCSID_def SelectCSID_fold)
  also have "fst ` set a \<inter> fst ` set b = {}"
    using assms by (simp add: shared_csids_def)
  finally show ?thesis by simp
qed

theorem C7_SelectCSID_disjoint_zero_witness:
  "shared_csids keys_2a keys_1a = {} \<and> SelectCSID keys_2a keys_1a = 0"
proof -
  have h: "shared_csids keys_2a keys_1a = {}"
    by (simp add: shared_csids_def keys_1a_def keys_2a_def)
  show ?thesis using h C7_SelectCSID_disjoint_zero [OF h] by simp
qed


















section \<open>NAT mapper\<close>

text \<open>
  \<open>net.IP\<close> is a slice of bytes, \<^verbatim>\<open>nil\<close> being the empty one; \<^verbatim>\<open>IP.Equal\<close> of Go's
  library also equates an IPv4 address with its 16-byte form.
\<close>

type_synonym IP = "8 word list"

definition v4InV6Prefix :: IP where
  "v4InV6Prefix = [0, 0, 0, 0, 0, 0, 0, 0, 0, 0, 0xff, 0xff]"

definition IP_Equal :: "IP \<Rightarrow> IP \<Rightarrow> bool" where
  "IP_Equal ip x =
     (if length ip = length x then ip = x
      else if length ip = 4 \<and> length x = 16 then take 12 x = v4InV6Prefix \<and> ip = drop 12 x
      else if length ip = 16 \<and> length x = 4 then take 12 ip = v4InV6Prefix \<and> drop 12 ip = x
      else False)"

text \<open>
  \<^verbatim>\<open>
  func mappingKey(proto string, ip net.IP, internal_port int) string {
      return fmt.Sprintf("%s:%s:%d", proto, ip, internal_port)
  }
  \<close>
  The text of an address is the library's; it is written here as the bytes in decimal,
  joined by dots, which is the library's text of an IPv4 address. No proof below looks into
  the key: each holds for every key function.
\<close>

fun Itoa_nat :: "nat \<Rightarrow> string" where
  "Itoa_nat n = (if n < 10 then [char_of (48 + n)] else Itoa_nat (n div 10) @ [char_of (48 + n mod 10)])"

declare Itoa_nat.simps [simp del]

definition Itoa :: "int \<Rightarrow> string" where
  "Itoa i = (if i < 0 then CHR ''-'' # Itoa_nat (nat (- i)) else Itoa_nat (nat i))"

fun join_dot :: "string list \<Rightarrow> string" where
  "join_dot [] = []"
| "join_dot [s] = s"
| "join_dot (s # ss) = s @ CHR ''.'' # join_dot ss"

definition IP_String :: "IP \<Rightarrow> string" where
  "IP_String ip = (if ip = [] then ''<nil>'' else join_dot (map (\<lambda>b. Itoa_nat (unat b)) ip))"

definition mappingKey :: "string \<Rightarrow> IP \<Rightarrow> int \<Rightarrow> string" where
  "mappingKey proto ip internal_port = proto @ '':'' @ IP_String ip @ '':'' @ Itoa internal_port"

text \<open>
  A \<^verbatim>\<open>transports.Addr\<close> either implements \<^verbatim>\<open>NATableAddr\<close>, and then \<^verbatim>\<open>InternalAddr()\<close>
  yields its protocol, address and port, or it does not.
  \<^verbatim>\<open>
  type natMapping struct {
      external transports.Addr
      internal transports.Addr
      stale    bool
  }
  \<close>
\<close>

datatype Addr = Addr_other string | Addr_natable string IP int

record natMapping =
  external :: Addr
  internal :: Addr
  stale :: bool

text \<open>
  The fields of \<^verbatim>\<open>transport\<close> that the mapper task writes: the gateway \<^verbatim>\<open>t.nat\<close>
  (\<open>None\<close> for \<^verbatim>\<open>nil\<close>) and the table \<^verbatim>\<open>t.mapping\<close>. The table is a finite map; where a
  loop over it calls the gateway, the calls are collected by key, since Go leaves the
  order of the loop open.
\<close>

datatype NAT = NAT nat

datatype nat_error = nat_error string

record transport =
  t_nat :: "NAT option"
  t_mapping :: "(string, natMapping) fmap"

text \<open>
  What the world answers during one tick of the mapper: the local addresses of the wrapped
  transport, the answers of the gateway and of the discovery, and the method
  \<^verbatim>\<open>MakeGlobal\<close> of the address types, which are outside the repository's sources here
  (\<open>None\<close> is its \<^verbatim>\<open>nil\<close>).
\<close>

record nat_env =
  LocalAddresses :: "Addr list"
  GetExternalAddress :: "nat_error + IP"
  GetInternalAddress :: "nat_error + IP"
  AddPortMapping :: "string \<Rightarrow> int \<Rightarrow> nat_error + int"
  MakeGlobal :: "Addr \<Rightarrow> IP \<Rightarrow> int \<Rightarrow> Addr option"
  Discover :: "nat_error + NAT"
  GetDeviceAddress :: "nat_error + IP"

text \<open>
  \<^verbatim>\<open>
  func asNATableAddr(addr transports.Addr) (string, net.IP, int) {
      naddr, _ := addr.(NATableAddr)
      if naddr == nil {
          return "", nil, 0
      }
      proto, ip, port := naddr.InternalAddr()
      if proto == "" || ip == nil || port <= 0 {
          return "", nil, 0
      }
      return proto, ip, port
  }
  \<close>
\<close>

definition asNATableAddr :: "Addr \<Rightarrow> string \<times> IP \<times> int" where
  "asNATableAddr addr =
     (case addr of
        Addr_other _ \<Rightarrow> ([], [], 0)
      | Addr_natable proto ip port \<Rightarrow>
          if proto = [] \<or> ip = [] \<or> port \<le> 0 then ([], [], 0) else (proto, ip, port))"

text \<open>
  Both ticks start with
  \<^verbatim>\<open>
  mapping = make(map[string]*natMapping, len(t.mapping))
  for k, v := range t.mapping {
      mapping[k] = v
      v.stale = true
  }
  \<close>
  The copy shares the entries of \<^verbatim>\<open>t.mapping\<close>, which are pointers: every entry of the
  table itself is marked stale, also when the tick returns early. \<open>set_stale\<close> is the
  assignment \<^verbatim>\<open>m.stale = b\<close> to the entry under a key.
\<close>

definition mark_stale :: "(string, natMapping) fmap \<Rightarrow> (string, natMapping) fmap" where
  "mark_stale m = fmmap (\<lambda>v. v\<lparr>stale := True\<rparr>) m"

definition set_stale :: "string \<Rightarrow> bool \<Rightarrow> (string, natMapping) fmap \<Rightarrow> (string, natMapping) fmap" where
  "set_stale key b m =
     (case fmlookup m key of None \<Rightarrow> m | Some v \<Rightarrow> fmupd key (v\<lparr>stale := b\<rparr>) m)"

text \<open>
  The body of the loop \<^verbatim>\<open>for _, addr := range t.t.LocalAddresses()\<close> of
  \<^verbatim>\<open>updateMappings\<close>. Its state is the local map \<^verbatim>\<open>mapping\<close> and the calls of
  \<^verbatim>\<open>AddPortMapping\<close> made so far; \<open>tm\<close> is \<^verbatim>\<open>t.mapping\<close>.
  \<^verbatim>\<open>
  nataddr, ok := addr.(NATableAddr)
  if !ok { continue }
  proto, ip, internal_port := nataddr.InternalAddr()
  if proto == "" || ip == nil || internal_port <= 0 { continue }
  if !ip.Equal(internal_ip) { continue }
  key := mappingKey(proto, ip, internal_port)
  if m := t.mapping[key]; m != nil {
      m.stale = false
      continue // Already exists
  }
  external_port, err := t.nat.AddPortMapping(proto, internal_port, "Telehash", 60*time.Minute)
  if err != nil { continue }
  globaddr := nataddr.MakeGlobal(external_ip, external_port)
  if globaddr == nil { continue }
  mapping[key] = &natMapping{external: globaddr, internal: addr, stale: false}
  \<close>
  An entry found in \<^verbatim>\<open>t.mapping\<close> is the entry that \<^verbatim>\<open>mapping\<close> holds under the same key
  (the loop writes \<^verbatim>\<open>mapping[key]\<close> only for keys that \<^verbatim>\<open>t.mapping\<close> lacks), so
  \<^verbatim>\<open>m.stale = false\<close> is \<open>set_stale key False\<close> on \<^verbatim>\<open>mapping\<close>.
\<close>

definition updateMappings_addr ::
  "nat_env \<Rightarrow> (string, natMapping) fmap \<Rightarrow> IP \<Rightarrow> IP \<Rightarrow> Addr \<Rightarrow>
   (string, natMapping) fmap \<times> (string \<times> int) list \<Rightarrow>
   (string, natMapping) fmap \<times> (string \<times> int) list" where
  "updateMappings_addr env tm external_ip internal_ip addr st =
     (case addr of
        Addr_other _ \<Rightarrow> st
      | Addr_natable proto ip internal_port \<Rightarrow>
          if proto = [] \<or> ip = [] \<or> internal_port \<le> 0 then st
          else if \<not> IP_Equal ip internal_ip then st
          else
            let key = mappingKey proto ip internal_port in
            if fmlookup tm key \<noteq> None then (set_stale key False (fst st), snd st)
            else
              (case AddPortMapping env proto internal_port of
                 Inl err \<Rightarrow> (fst st, snd st @ [(proto, internal_port)])
               | Inr external_port \<Rightarrow>
                   (case MakeGlobal env addr external_ip external_port of
                      None \<Rightarrow> (fst st, snd st @ [(proto, internal_port)])
                    | Some globaddr \<Rightarrow>
                        (fmupd key \<lparr>external = globaddr, internal = addr, stale = False\<rparr> (fst st),
                         snd st @ [(proto, internal_port)]))))"

text \<open>
  The sweep of \<^verbatim>\<open>updateMappings\<close>:
  \<^verbatim>\<open>
  for key, m := range mapping {
      if !m.stale { continue }
      nataddr, ok := m.internal.(NATableAddr)
      if !ok { continue }
      proto, _, internal_port := nataddr.InternalAddr()
      if proto == "" || internal_port <= 0 { continue }
      t.nat.DeletePortMapping(proto, internal_port)
      delete(mapping, key)
  }
  \<close>
  \<open>sweeps m\<close> says that the loop deletes the entry \<open>m\<close>, \<open>gateway_call m\<close> is the protocol
  and port that a call of the gateway for \<open>m\<close> passes.
\<close>

definition sweeps :: "natMapping \<Rightarrow> bool" where
  "sweeps m =
     (stale m \<and>
      (case internal m of
         Addr_other _ \<Rightarrow> False
       | Addr_natable proto ip internal_port \<Rightarrow> \<not> (proto = [] \<or> internal_port \<le> 0)))"

definition gateway_call :: "natMapping \<Rightarrow> string \<times> int" where
  "gateway_call m =
     (case internal m of
        Addr_other _ \<Rightarrow> ([], 0)
      | Addr_natable proto ip internal_port \<Rightarrow> (proto, internal_port))"

definition swept :: "(string, natMapping) fmap \<Rightarrow> (string, natMapping) fmap" where
  "swept mapping =
     fmfilter (\<lambda>key. case fmlookup mapping key of None \<Rightarrow> False | Some m \<Rightarrow> sweeps m) mapping"

definition kept :: "(string, natMapping) fmap \<Rightarrow> (string, natMapping) fmap" where
  "kept mapping =
     fmfilter (\<lambda>key. case fmlookup mapping key of None \<Rightarrow> False | Some m \<Rightarrow> \<not> sweeps m) mapping"

text \<open>
  \<^verbatim>\<open>updateMappings\<close>, the reconciliation tick. It is called from \<^verbatim>\<open>runMappingMode\<close> only,
  where \<^verbatim>\<open>t.nat\<close> is not \<^verbatim>\<open>nil\<close>. The result is the transport, the calls of
  \<^verbatim>\<open>AddPortMapping\<close> in the order made, and the calls of \<^verbatim>\<open>DeletePortMapping\<close> by key.
  \<^verbatim>\<open>
  external_ip, err := t.nat.GetExternalAddress()
  if err != nil {
      t.nat = nil
      return
  }
  internal_ip, err := t.nat.GetInternalAddress()
  if err != nil {
      t.nat = nil
      return
  }
  ... the two loops ...
  t.mapping = mapping
  \<close>
\<close>

definition updateMappings ::
  "nat_env \<Rightarrow> transport \<Rightarrow>
   transport \<times> (string \<times> int) list \<times> (string, string \<times> int) fmap" where
  "updateMappings env t =
     (let tm = mark_stale (t_mapping t) in
      case GetExternalAddress env of
        Inl err \<Rightarrow> (t\<lparr>t_nat := None, t_mapping := tm\<rparr>, [], fmempty)
      | Inr external_ip \<Rightarrow>
          (case GetInternalAddress env of
             Inl err \<Rightarrow> (t\<lparr>t_nat := None, t_mapping := tm\<rparr>, [], fmempty)
           | Inr internal_ip \<Rightarrow>
               let st = fold (updateMappings_addr env tm external_ip internal_ip)
                          (LocalAddresses env) (tm, [])
               in (t\<lparr>t_mapping := kept (fst st)\<rparr>, snd st, fmmap gateway_call (swept (fst st)))))"

text \<open>
  \<^verbatim>\<open>refreshMapping\<close>, the refresh tick: after the same start and the same two queries, each
  entry is mapped again, and dropped when its address is not NATable any more, when the
  internal address changed, or when the gateway or \<^verbatim>\<open>MakeGlobal\<close> fails; otherwise
  \<^verbatim>\<open>m.external = globaddr\<close>. \<open>refreshMapping_entry\<close> is the body of that loop for one entry
  (whether it goes on the drop list, and the entry afterwards), \<open>refreshMapping_remaps\<close>
  says that the body reaches the call of \<^verbatim>\<open>AddPortMapping\<close>.
\<close>

definition refreshMapping_entry :: "nat_env \<Rightarrow> IP \<Rightarrow> IP \<Rightarrow> natMapping \<Rightarrow> bool \<times> natMapping" where
  "refreshMapping_entry env external_ip internal_ip m =
     (case asNATableAddr (internal m) of (proto, ip, internal_port) \<Rightarrow>
        if proto = [] then (True, m)
        else if \<not> IP_Equal ip internal_ip then (True, m)
        else
          (case AddPortMapping env proto internal_port of
             Inl err \<Rightarrow> (True, m)
           | Inr external_port \<Rightarrow>
               (case MakeGlobal env (internal m) external_ip external_port of
                  None \<Rightarrow> (True, m)
                | Some globaddr \<Rightarrow> (False, m\<lparr>external := globaddr\<rparr>))))"

definition refreshMapping_remaps :: "IP \<Rightarrow> natMapping \<Rightarrow> bool" where
  "refreshMapping_remaps internal_ip m =
     (case asNATableAddr (internal m) of (proto, ip, internal_port) \<Rightarrow>
        proto \<noteq> [] \<and> IP_Equal ip internal_ip)"

definition refreshMapping ::
  "nat_env \<Rightarrow> transport \<Rightarrow> transport \<times> (string, string \<times> int) fmap" where
  "refreshMapping env t =
     (let tm = mark_stale (t_mapping t) in
      case GetExternalAddress env of
        Inl err \<Rightarrow> (t\<lparr>t_nat := None, t_mapping := tm\<rparr>, fmempty)
      | Inr external_ip \<Rightarrow>
          (case GetInternalAddress env of
             Inl err \<Rightarrow> (t\<lparr>t_nat := None, t_mapping := tm\<rparr>, fmempty)
           | Inr internal_ip \<Rightarrow>
               (t\<lparr>t_mapping :=
                    fmmap (\<lambda>m. snd (refreshMapping_entry env external_ip internal_ip m))
                      (fmfilter (\<lambda>key. case fmlookup tm key of
                                          None \<Rightarrow> False
                                        | Some m \<Rightarrow> \<not> fst (refreshMapping_entry env external_ip internal_ip m))
                         tm)\<rparr>,
                fmmap gateway_call
                  (fmfilter (\<lambda>key. case fmlookup tm key of
                                       None \<Rightarrow> False
                                     | Some m \<Rightarrow> refreshMapping_remaps internal_ip m)
                     tm))))"

text \<open>
  The tickers and the \<^verbatim>\<open>done\<close> channel that the two modes select on. A mode has no case
  for the ticker of the other mode: such a tick leaves the state as it is.
\<close>

datatype tick = Done | UpdateTick | RefreshTick | DiscoverTick

text \<open>
  One turn of the loop of \<^verbatim>\<open>runMappingMode\<close>; the second component is the value returned,
  \<open>None\<close> when the loop goes on.
  \<^verbatim>\<open>
  select {
  case <-t.done:
      t.mapping = make(map[string]*natMapping)
      return true // done
  case <-refreshTicker.C:
      t.refreshMapping()
  case <-updateTicker.C:
      t.updateMappings()
  }
  if t.nat == nil {
      t.mapping = make(map[string]*natMapping)
      return false // not done
  }
  \<close>
\<close>

definition runMappingMode_select :: "nat_env \<Rightarrow> tick \<Rightarrow> transport \<Rightarrow> transport \<times> bool option" where
  "runMappingMode_select env ev t =
     (case ev of
        Done \<Rightarrow> (t\<lparr>t_mapping := fmempty\<rparr>, Some True)
      | _ \<Rightarrow>
          let t' = (case ev of
                      RefreshTick \<Rightarrow> fst (refreshMapping env t)
                    | UpdateTick \<Rightarrow> fst (updateMappings env t)
                    | _ \<Rightarrow> t)
          in if t_nat t' = None then (t'\<lparr>t_mapping := fmempty\<rparr>, Some False) else (t', None))"

text \<open>
  \<^verbatim>\<open>updateKnownAddresses\<close>: clear the marks, mark the keys of the NATable local addresses
  (a key not seen before is a change), delete the unmarked keys (each is a change).
\<close>

definition updateKnownAddresses_addr ::
  "Addr \<Rightarrow> (string, bool) fmap \<times> bool \<Rightarrow> (string, bool) fmap \<times> bool" where
  "updateKnownAddresses_addr addr st =
     (case asNATableAddr addr of (proto, ip, internal_port) \<Rightarrow>
        if proto = [] then st
        else
          let key = mappingKey proto ip internal_port in
          (fmupd key True (fst st), snd st \<or> fmlookup (fst st) key = None))"

definition updateKnownAddresses ::
  "nat_env \<Rightarrow> (string, bool) fmap \<Rightarrow> (string, bool) fmap \<times> bool" where
  "updateKnownAddresses env known =
     (let st = fold updateKnownAddresses_addr (LocalAddresses env)
                 (fmmap (\<lambda>_. False) known, False)
      in (fmfilter (\<lambda>key. fmlookup (fst st) key = Some True) (fst st),
          snd st \<or> fmfilter (\<lambda>key. fmlookup (fst st) key = Some False) (fst st) \<noteq> fmempty))"

text \<open>
  \<^verbatim>\<open>
  func (t *transport) discoverNAT() {
      nat, err := nat.Discover()
      if err != nil { return }
      _, err = nat.GetDeviceAddress()
      if err != nil { return }
      t.nat = nat
  }
  \<close>
\<close>

definition discoverNAT :: "nat_env \<Rightarrow> transport \<Rightarrow> transport" where
  "discoverNAT env t =
     (case Discover env of
        Inl err \<Rightarrow> t
      | Inr nat_dev \<Rightarrow>
          (case GetDeviceAddress env of
             Inl err \<Rightarrow> t
           | Inr _ \<Rightarrow> t\<lparr>t_nat := Some nat_dev\<rparr>))"

text \<open>
  One turn of the loop of \<^verbatim>\<open>runDiscoverMode\<close>, on the transport and the local variable
  \<^verbatim>\<open>knownAddrs\<close>.
  \<^verbatim>\<open>
  select {
  case <-t.done:
      return true // done
  case <-updateTicker.C:
      changed := t.updateKnownAddresses(knownAddrs)
      if changed { t.discoverNAT() }
  case <-discoverTicker.C:
      t.discoverNAT()
  }
  if t.nat != nil {
      return false // not done
  }
  \<close>
\<close>

definition runDiscoverMode_select ::
  "nat_env \<Rightarrow> tick \<Rightarrow> transport \<times> (string, bool) fmap \<Rightarrow>
   (transport \<times> (string, bool) fmap) \<times> bool option" where
  "runDiscoverMode_select env ev st =
     (case ev of
        Done \<Rightarrow> (st, Some True)
      | _ \<Rightarrow>
          let st' = (case ev of
                       UpdateTick \<Rightarrow>
                         (case updateKnownAddresses env (snd st) of (known, changed) \<Rightarrow>
                            (if changed then discoverNAT env (fst st) else fst st, known))
                     | DiscoverTick \<Rightarrow> (discoverNAT env (fst st), snd st)
                     | _ \<Rightarrow> st)
          in if t_nat (fst st') \<noteq> None then (st', Some False) else (st', None))"

text \<open>
  \<^verbatim>\<open>
  func (t *transport) runMapper() {
      var closed bool
      for !closed {
          if t.nat == nil {
              closed = t.runDiscoverMode()
          } else {
              closed = t.runMappingMode()
          }
      }
  }
  \<close>
  The state of the task between two ticks is the transport, the variable \<^verbatim>\<open>knownAddrs\<close>
  of \<^verbatim>\<open>runDiscoverMode\<close> (made empty whenever that function is entered) and \<^verbatim>\<open>closed\<close>.
  Inside the loop of \<^verbatim>\<open>runDiscoverMode\<close> \<^verbatim>\<open>t.nat\<close> is \<^verbatim>\<open>nil\<close>, inside the loop of
  \<^verbatim>\<open>runMappingMode\<close> it is not, and a mode that returns hands over to the test of
  \<^verbatim>\<open>runMapper\<close>: the mode that handles the next tick is read off \<^verbatim>\<open>t.nat\<close>.
\<close>

record mapper =
  m_transport :: transport
  knownAddrs :: "(string, bool) fmap"
  closed :: bool

datatype mapper_mode = DiscoverMode | MappingMode | Stopped

definition runMapper_mode :: "mapper \<Rightarrow> mapper_mode" where
  "runMapper_mode s =
     (if closed s then Stopped
      else if t_nat (m_transport s) = None then DiscoverMode
      else MappingMode)"

definition runMapper_step :: "nat_env \<Rightarrow> tick \<Rightarrow> mapper \<Rightarrow> mapper" where
  "runMapper_step env ev s =
     (case runMapper_mode s of
        Stopped \<Rightarrow> s
      | DiscoverMode \<Rightarrow>
          (case runDiscoverMode_select env ev (m_transport s, knownAddrs s) of
             ((t, known), None) \<Rightarrow> s\<lparr>m_transport := t, knownAddrs := known\<rparr>
           | ((t, known), Some c) \<Rightarrow> s\<lparr>m_transport := t, knownAddrs := fmempty, closed := c\<rparr>)
      | MappingMode \<Rightarrow>
          (case runMappingMode_select env ev (m_transport s) of
             (t, None) \<Rightarrow> s\<lparr>m_transport := t\<rparr>
           | (t, Some c) \<Rightarrow> s\<lparr>m_transport := t, knownAddrs := fmempty, closed := c\<rparr>))"

definition runMapper :: "(nat_env \<times> tick) list \<Rightarrow> mapper \<Rightarrow> mapper" where
  "runMapper ticks s = fold (\<lambda>(env, ev). runMapper_step env ev) ticks s"






text \<open>
  A host at 192.168.1.5 behind a gateway with the external address 1.2.3.4, listening on
  UDP port 4000 and on a relayed path.
\<close>

definition home_env :: nat_env where
  "home_env =
     \<lparr>LocalAddresses = [Addr_natable ''udp'' [192, 168, 1, 5] 4000, Addr_other ''peer:abc''],
      GetExternalAddress = Inr [1, 2, 3, 4],
      GetInternalAddress = Inr [192, 168, 1, 5],
      AddPortMapping = (\<lambda>proto internal_port. Inr (internal_port + 10000)),
      MakeGlobal = (\<lambda>addr ip port.
         case addr of
           Addr_other _ \<Rightarrow> None
         | Addr_natable proto _ _ \<Rightarrow> Some (Addr_natable proto ip port)),
      Discover = Inr (NAT 1),
      GetDeviceAddress = Inr [192, 168, 1, 1]\<rparr>"

definition home_transport :: transport where
  "home_transport = \<lparr>t_nat = Some (NAT 1), t_mapping = fmempty\<rparr>"

definition home_mapper :: mapper where
  "home_mapper =
     \<lparr>m_transport = fst (updateMappings home_env home_transport),
      knownAddrs = fmempty, closed = False\<rparr>"

section \<open>NAT mapper: proofs\<close>



lemma kept_lookup:
  "fmlookup (kept m) k =
     (case fmlookup m k of None \<Rightarrow> None | Some v \<Rightarrow> if sweeps v then None else Some v)"
  by (simp add: kept_def split: option.splits)

lemma swept_lookup:
  "fmlookup (swept m) k =
     (case fmlookup m k of None \<Rightarrow> None | Some v \<Rightarrow> if sweeps v then Some v else None)"
  by (simp add: swept_def split: option.splits)












lemma updateMappings_query_fails:
  "isl (GetExternalAddress env) \<or> isl (GetInternalAddress env) \<Longrightarrow>
   updateMappings env t = (t\<lparr>t_nat := None, t_mapping := mark_stale (t_mapping t)\<rparr>, [], fmempty)"
  by (auto simp: updateMappings_def Let_def split: sum.splits)

lemma refreshMapping_query_fails:
  "isl (GetExternalAddress env) \<or> isl (GetInternalAddress env) \<Longrightarrow>
   refreshMapping env t = (t\<lparr>t_nat := None, t_mapping := mark_stale (t_mapping t)\<rparr>, fmempty)"
  by (auto simp: refreshMapping_def Let_def split: sum.splits)

lemma home_first_tick:
  "updateMappings home_env home_transport =
     (\<lparr>t_nat = Some (NAT 1),
       t_mapping = fmupd (mappingKey ''udp'' [192, 168, 1, 5] 4000)
         \<lparr>external = Addr_natable ''udp'' [1, 2, 3, 4] 14000,
          internal = Addr_natable ''udp'' [192, 168, 1, 5] 4000, stale = False\<rparr> fmempty\<rparr>,
      [(''udp'', 4000)], fmempty)"
  apply (simp add: updateMappings_def home_env_def home_transport_def updateMappings_addr_def
      IP_Equal_def mark_stale_def Let_def)
  apply (intro conjI fmap_ext)
  apply (simp_all add: kept_lookup swept_lookup sweeps_def)
  done



text \<open>
  Claim C9. In mapping mode, when the query of the external or of the internal address
  fails during a reconciliation or a refresh tick, the mapper drops the gateway, clears
  the mapping table and leaves \<^verbatim>\<open>runMappingMode\<close> without being closed: the next tick is
  handled by \<^verbatim>\<open>runDiscoverMode\<close>.
\<close>

theorem C9_query_failure_returns_to_discover:
  assumes "runMapper_mode s = MappingMode"
    and "ev = UpdateTick \<or> ev = RefreshTick"
    and "isl (GetExternalAddress env) \<or> isl (GetInternalAddress env)"
  shows "runMapper_step env ev s =
           s\<lparr>m_transport := (m_transport s)\<lparr>t_nat := None, t_mapping := fmempty\<rparr>,
             knownAddrs := fmempty, closed := False\<rparr> \<and>
         runMapper_mode (runMapper_step env ev s) = DiscoverMode"
  using assms
  by (auto simp: runMapper_step_def runMappingMode_select_def runMapper_mode_def
      updateMappings_query_fails refreshMapping_query_fails split: if_splits)

theorem C9_query_failure_returns_to_discover_witness:
  "runMapper_mode home_mapper = MappingMode \<and>
   t_mapping (m_transport home_mapper) \<noteq> fmempty \<and>
   isl (GetInternalAddress (home_env\<lparr>GetInternalAddress := Inl (nat_error ''timeout'')\<rparr>)) \<and>
   runMapper_step (home_env\<lparr>GetInternalAddress := Inl (nat_error ''timeout'')\<rparr>) RefreshTick home_mapper =
     home_mapper\<lparr>m_transport := (m_transport home_mapper)\<lparr>t_nat := None, t_mapping := fmempty\<rparr>,
       knownAddrs := fmempty, closed := False\<rparr> \<and>
   runMapper_mode
     (runMapper_step (home_env\<lparr>GetInternalAddress := Inl (nat_error ''timeout'')\<rparr>) RefreshTick home_mapper) =
     DiscoverMode"
proof -
  have m: "runMapper_mode home_mapper = MappingMode"
    by (simp add: runMapper_mode_def home_mapper_def home_first_tick)
  have n: "t_mapping (m_transport home_mapper) \<noteq> fmempty"
    by (simp add: home_mapper_def home_first_tick)
  have f: "isl (GetExternalAddress (home_env\<lparr>GetInternalAddress := Inl (nat_error ''timeout'')\<rparr>)) \<or>
      isl (GetInternalAddress (home_env\<lparr>GetInternalAddress := Inl (nat_error ''timeout'')\<rparr>))"
    by simp
  have g: "isl (GetInternalAddress (home_env\<lparr>GetInternalAddress := Inl (nat_error ''timeout'')\<rparr>))"
    by simp
  have e: "RefreshTick = UpdateTick \<or> RefreshTick = RefreshTick" by simp
  show ?thesis
    using m n g C9_query_failure_returns_to_discover [OF m e f] by blast
qed

end
